theory Spec2Isabelle
  imports Complex_Main "HOL-Library.Word" "HOL-Library.Multiset" "HOL-Library.AList"
begin

text \<open>
  The tabular ingestion engine of the spreadsheet viewer: header discovery and row
  materialization (\<open>xlsxUtils\<close>), column type inference, the generic filter and sort
  (\<open>xlsxParser\<close>) and the typed mileage sort (\<open>csvParser\<close>), as functions over
  JavaScript values, followed by the properties that the specification states about them.
\<close>

section \<open>JavaScript values\<close>

text \<open>
  A JavaScript string is a sequence of 16-bit code units. Literals of the source that are
  plain ASCII are written with \<open>utf16\<close>; the Korean unit suffixes are given by their
  code units.
\<close>

type_synonym jsstring = "16 word list"

definition utf16 :: "string \<Rightarrow> jsstring" where
  "utf16 s = map (\<lambda>c. of_nat (of_char c)) s"

text \<open>
  \<open>String.fromCharCode(n)\<close>: one code unit, \<open>n\<close> reduced modulo \<open>2 ^ 16\<close>.
\<close>

definition fromCharCode :: "nat \<Rightarrow> jsstring" where
  "fromCharCode n = [of_nat n]"

text \<open>
  A JavaScript number is a binary64 value. The model keeps the not-a-number value and
  the two infinities apart from the finite values and takes the finite values as exact
  rationals: rounding to binary64 is not modelled.
\<close>

datatype jsnum = NaN | NegInf | Fin rat | PosInf

fun isNaN :: "jsnum \<Rightarrow> bool" where
  "isNaN NaN = True"
| "isNaN _ = False"

fun num_lt :: "jsnum \<Rightarrow> jsnum \<Rightarrow> bool" where
  "num_lt NaN _ = False"
| "num_lt _ NaN = False"
| "num_lt (Fin a) (Fin b) = (a < b)"
| "num_lt NegInf NegInf = False"
| "num_lt NegInf _ = True"
| "num_lt _ NegInf = False"
| "num_lt PosInf _ = False"
| "num_lt _ PosInf = True"

definition num_gt :: "jsnum \<Rightarrow> jsnum \<Rightarrow> bool" where
  "num_gt a b = num_lt b a"

fun num_eq :: "jsnum \<Rightarrow> jsnum \<Rightarrow> bool" where
  "num_eq NaN _ = False"
| "num_eq _ NaN = False"
| "num_eq a b = (a = b)"

fun num_neg :: "jsnum \<Rightarrow> jsnum" where
  "num_neg NaN = NaN"
| "num_neg NegInf = PosInf"
| "num_neg PosInf = NegInf"
| "num_neg (Fin a) = Fin (- a)"

fun num_sub :: "jsnum \<Rightarrow> jsnum \<Rightarrow> jsnum" where
  "num_sub NaN _ = NaN"
| "num_sub _ NaN = NaN"
| "num_sub (Fin a) (Fin b) = Fin (a - b)"
| "num_sub PosInf PosInf = NaN"
| "num_sub NegInf NegInf = NaN"
| "num_sub PosInf _ = PosInf"
| "num_sub NegInf _ = NegInf"
| "num_sub _ PosInf = NegInf"
| "num_sub _ NegInf = PosInf"

text \<open>
  The values a cell or a record field can hold: \<open>undefined\<close>, \<open>null\<close>, a boolean, a
  number, a string, or a \<open>Date\<close> object (given by its time value, \<open>NaN\<close> for an invalid
  date). Reading a property of a record can also give what the record inherits:
  \<open>Object.prototype\<close> itself, or one of its functions, given by the name of the
  property that holds it.
\<close>

datatype jsval =
  JUndefined | JNull | JBool bool | JNum jsnum | JStr jsstring | JDate jsnum
  | JObjectPrototype | JFunction jsstring

text \<open>
  What the engine's runtime supplies and this repository does not define: the rendering
  of numbers, dates and built-in functions as text, \<open>new Date(s).getTime()\<close>,
  \<open>toLowerCase\<close>, the \<open>ko-KR\<close> collation and the clock. They are parameters of every
  function that reaches them.
\<close>

record natives =
  numberToString :: "jsnum \<Rightarrow> jsstring"
  dateToString :: "jsnum \<Rightarrow> jsstring"
  functionToString :: "jsstring \<Rightarrow> jsstring"
  dateParse :: "jsstring \<Rightarrow> jsnum"
  toLowerCase :: "jsstring \<Rightarrow> jsstring"
  localeCompare :: "jsstring \<Rightarrow> jsstring \<Rightarrow> jsnum"
  nowISOString :: "jsstring"

text \<open>\<open>String(v)\<close>.\<close>

fun jsString :: "natives \<Rightarrow> jsval \<Rightarrow> jsstring" where
  "jsString host JUndefined = utf16 ''undefined''"
| "jsString host JNull = utf16 ''null''"
| "jsString host (JBool b) = (if b then utf16 ''true'' else utf16 ''false'')"
| "jsString host (JNum n) = numberToString host n"
| "jsString host (JStr s) = s"
| "jsString host (JDate t) = dateToString host t"
| "jsString host JObjectPrototype = utf16 ''[object Object]''"
| "jsString host (JFunction f) = functionToString host f"

text \<open>
  White space and line terminators, the characters that \<open>trim\<close>, the regular
  expression class \<open>\s\<close> and the number parsers skip.
\<close>

definition isWhiteSpace :: "16 word \<Rightarrow> bool" where
  "isWhiteSpace c \<longleftrightarrow>
     c = 0x09 \<or> c = 0x0A \<or> c = 0x0B \<or> c = 0x0C \<or> c = 0x0D \<or> c = 0x20 \<or> c = 0xA0
     \<or> c = 0x1680 \<or> (0x2000 \<le> c \<and> c \<le> 0x200A) \<or> c = 0x2028 \<or> c = 0x2029
     \<or> c = 0x202F \<or> c = 0x205F \<or> c = 0x3000 \<or> c = 0xFEFF"

definition trim :: "jsstring \<Rightarrow> jsstring" where
  "trim s = rev (dropWhile isWhiteSpace (rev (dropWhile isWhiteSpace s)))"

text \<open>
  A \<open>Record<string, any>\<close> is a plain object: its prototype is \<open>Object.prototype\<close>.
  It is given by its own properties, an association list in insertion order; assigning
  to a key that is present keeps its place. (The engine lists keys that look like array
  indices first; the statements below do not depend on the order.)
\<close>

type_synonym jsobject = "(jsstring \<times> jsval) list"

text \<open>
  Reading \<open>obj[k]\<close> gives the own property when there is one and otherwise what
  \<open>Object.prototype\<close> has under that name: the accessor \<open>__proto__\<close>, which returns
  the prototype of the record, its eleven functions, and \<open>undefined\<close> for every other
  name.
\<close>

definition objectPrototypeFunctions :: "jsstring list" where
  "objectPrototypeFunctions =
     [utf16 ''constructor'', utf16 ''__defineGetter__'', utf16 ''__defineSetter__'',
      utf16 ''hasOwnProperty'', utf16 ''__lookupGetter__'', utf16 ''__lookupSetter__'',
      utf16 ''isPrototypeOf'', utf16 ''propertyIsEnumerable'', utf16 ''toString'',
      utf16 ''valueOf'', utf16 ''toLocaleString'']"

definition inherited :: "jsstring \<Rightarrow> jsval" where
  "inherited k =
     (if k = utf16 ''__proto__'' then JObjectPrototype
      else if k \<in> set objectPrototypeFunctions then JFunction k
      else JUndefined)"

definition get :: "jsobject \<Rightarrow> jsstring \<Rightarrow> jsval" where
  "get obj k = (case map_of obj k of None \<Rightarrow> inherited k | Some v \<Rightarrow> v)"

text \<open>
  The row objects that the worksheet parser builds hold text only. \<open>rowObject[k] = text\<close>
  stores an own property, except under the name \<open>__proto__\<close>: while the object has no
  own property of that name the assignment goes to the inherited setter, which ignores
  a text, and nothing is stored.
\<close>

type_synonym textrecord = "(jsstring \<times> jsstring) list"

definition assignText :: "textrecord \<Rightarrow> jsstring \<Rightarrow> jsstring \<Rightarrow> textrecord" where
  "assignText obj k text =
     (if k = utf16 ''__proto__'' \<and> map_of obj k = None then obj else AList.update k text obj)"

definition getText :: "textrecord \<Rightarrow> jsstring \<Rightarrow> jsval" where
  "getText obj k = (case map_of obj k of None \<Rightarrow> inherited k | Some text \<Rightarrow> JStr text)"

definition keys :: "jsobject \<Rightarrow> jsstring list" where
  "keys obj = map fst obj"

definition cellAt :: "jsval list \<Rightarrow> nat \<Rightarrow> jsval" where
  \<comment> \<open>\<open>row[idx]\<close>: reading past the end of an array gives \<open>undefined\<close>.\<close>
  "cellAt row idx = (if idx < length row then row ! idx else JUndefined)"

section \<open>xlsxUtils: header discovery and row materialization\<close>

record XLSXParseOptions =
  minHeaderColumns :: int
  maxHeaderSearchRows :: int
  skipEmptyRows :: bool
  fallbackColumnPrefix :: jsstring

definition defaultOptions :: XLSXParseOptions where
  "defaultOptions = \<lparr>minHeaderColumns = 2, maxHeaderSearchRows = 20,
     skipEmptyRows = True, fallbackColumnPrefix = utf16 ''Column''\<rparr>"

record XLSXParseResult =
  data :: "jsobject list"
  columns :: "jsstring list"
  headerRowIndex :: int
  totalRawRows :: nat

definition countsAsHeaderCell :: "natives \<Rightarrow> jsval \<Rightarrow> bool" where
  \<comment> \<open>the predicate of the \<open>filter\<close> in \<open>isValidHeaderRow\<close>\<close>
  "countsAsHeaderCell host cell =
     (if cell = JNull \<or> cell = JUndefined then False
      else let cellStr = trim (jsString host cell)
           in cellStr \<noteq> [] \<and> cellStr \<noteq> utf16 ''undefined'')"

definition nonEmptyCount :: "natives \<Rightarrow> jsval list \<Rightarrow> nat" where
  "nonEmptyCount host row = length (filter (countsAsHeaderCell host) row)"

definition isValidHeaderRow :: "natives \<Rightarrow> jsval list \<Rightarrow> int \<Rightarrow> bool" where
  "isValidHeaderRow host row minColumns =
     (if length row = 0 then False else int (nonEmptyCount host row) \<ge> minColumns)"

definition normalizeHeader :: "natives \<Rightarrow> jsval \<Rightarrow> nat \<Rightarrow> jsstring \<Rightarrow> jsstring" where
  "normalizeHeader host header columnIndex fallbackPrefix =
     (if header = JNull \<or> header = JUndefined
      then fallbackPrefix @ utf16 '' '' @ fromCharCode (65 + columnIndex)
      else let headerStr = trim (jsString host header)
           in if headerStr = [] \<or> headerStr = utf16 ''undefined''
              then fallbackPrefix @ utf16 '' '' @ fromCharCode (65 + columnIndex)
              else headerStr)"

definition normalizeRow :: "natives \<Rightarrow> jsval list \<Rightarrow> jsstring \<Rightarrow> jsstring list" where
  \<comment> \<open>\<open>row.map((cell, idx) => normalizeHeader(cell, idx, fallbackColumnPrefix))\<close>\<close>
  "normalizeRow host row fallbackPrefix =
     map (\<lambda>(idx, cell). normalizeHeader host cell idx fallbackPrefix) (enumerate 0 row)"

text \<open>
  The search loop \<open>for (let i = 0; i < searchLimit; i++)\<close> with its \<open>break\<close>: the
  index of the first valid row below the limit, if there is one.
\<close>

function findHeaderRow :: "natives \<Rightarrow> jsval list list \<Rightarrow> int \<Rightarrow> nat \<Rightarrow> nat \<Rightarrow> nat option" where
  "findHeaderRow host rawData minColumns searchLimit i =
     (if i < searchLimit
      then (if isValidHeaderRow host (rawData ! i) minColumns then Some i
            else findHeaderRow host rawData minColumns searchLimit (Suc i))
      else None)"
  by pat_completeness auto
termination
  by (relation "measure (\<lambda>(host, rawData, minColumns, searchLimit, i). searchLimit - i)") auto

declare findHeaderRow.simps [simp del]

definition discoverHeader ::
  "natives \<Rightarrow> XLSXParseOptions \<Rightarrow> jsval list list \<Rightarrow> int \<times> jsstring list" where
  \<comment> \<open>the header search of \<open>parseWorksheetRobust\<close> and its first-row fallback;
      \<open>searchLimit\<close> never exceeds the number of rows, so every \<open>rawData[i]\<close> exists\<close>
  "discoverHeader host options rawData =
     (let searchLimit = nat (min (maxHeaderSearchRows options) (int (length rawData)))
      in case findHeaderRow host rawData (minHeaderColumns options) searchLimit 0 of
           Some i \<Rightarrow> (int i, normalizeRow host (rawData ! i) (fallbackColumnPrefix options))
         | None \<Rightarrow>
             if length rawData > 0
             then (0, normalizeRow host (rawData ! 0) (fallbackColumnPrefix options))
             else (- 1, []))"

definition hasData :: "natives \<Rightarrow> jsval list \<Rightarrow> bool" where
  "hasData host row =
     list_ex (\<lambda>cell. if cell = JNull \<or> cell = JUndefined then False
                     else trim (jsString host cell) \<noteq> []) row"

definition makeRowObject :: "natives \<Rightarrow> jsstring list \<Rightarrow> jsval list \<Rightarrow> textrecord" where
  \<comment> \<open>\<open>headers.forEach((header, idx) => rowObject[header] = ...)\<close>\<close>
  "makeRowObject host headers row =
     foldl (\<lambda>rowObject (idx, header).
              let v = cellAt row idx
              in assignText rowObject header
                   (if v \<noteq> JUndefined \<and> v \<noteq> JNull then trim (jsString host v) else []))
       [] (enumerate 0 headers)"

fun materializeRows ::
  "natives \<Rightarrow> bool \<Rightarrow> jsstring list \<Rightarrow> jsval list list \<Rightarrow> textrecord list" where
  "materializeRows host skipEmpty headers [] = []"
| "materializeRows host skipEmpty headers (row # rows) =
     (if skipEmpty \<and> \<not> hasData host row then materializeRows host skipEmpty headers rows
      else makeRowObject host headers row # materializeRows host skipEmpty headers rows)"

definition holdsData :: "natives \<Rightarrow> textrecord \<Rightarrow> jsstring \<Rightarrow> bool" where
  \<comment> \<open>the inner predicate of the column filter: \<open>row[col]\<close> is not null, not undefined
      and not empty as text\<close>
  "holdsData host row col =
     (let v = getText row col
      in v \<noteq> JNull \<and> v \<noteq> JUndefined \<and> trim (jsString host v) \<noteq> [])"

definition columnsWithData :: "natives \<Rightarrow> jsstring list \<Rightarrow> textrecord list \<Rightarrow> jsstring list" where
  "columnsWithData host headers rows =
     filter (\<lambda>col. list_ex (\<lambda>row. holdsData host row col) rows) headers"

definition finalColumns :: "natives \<Rightarrow> jsstring list \<Rightarrow> textrecord list \<Rightarrow> jsstring list" where
  "finalColumns host headers rows =
     (if length (columnsWithData host headers rows) > 0
      then columnsWithData host headers rows else headers)"

definition cleanRow :: "jsstring list \<Rightarrow> textrecord \<Rightarrow> jsobject" where
  \<comment> \<open>\<open>finalColumns.forEach(col => cleanRow[col] = row[col] !== undefined ? row[col] : '')\<close>.
      Under the name \<open>__proto__\<close> the value is a text of the row or, read through the
      prototype, \<open>Object.prototype\<close> itself; the inherited setter ignores the one and
      sets the prototype to what it already is for the other, so nothing is stored\<close>
  "cleanRow cols row =
     foldl (\<lambda>cleanRow col.
              let v = (if getText row col \<noteq> JUndefined then getText row col else JStr [])
              in if col = utf16 ''__proto__'' \<and> map_of cleanRow col = None then cleanRow
                 else AList.update col v cleanRow)
       [] cols"

definition parseWorksheetRobust ::
  "natives \<Rightarrow> XLSXParseOptions \<Rightarrow> jsval list list \<Rightarrow> XLSXParseResult" where
  \<comment> \<open>\<open>rawData\<close> is the grid that \<open>sheet_to_json\<close> returns for the worksheet\<close>
  "parseWorksheetRobust host options rawData =
     (if length rawData = 0
      then \<lparr>data = [], columns = [], headerRowIndex = - 1, totalRawRows = 0\<rparr>
      else
        let (headerRowIndex, headers) = discoverHeader host options rawData
        in if length headers = 0
           then \<lparr>data = [], columns = [], headerRowIndex = - 1,
                 totalRawRows = length rawData\<rparr>
           else
             let rows = materializeRows host (skipEmptyRows options) headers
                          (drop (nat (headerRowIndex + 1)) rawData);
                 finalCols = finalColumns host headers rows;
                 cleanData = map (cleanRow finalCols) rows
             in \<lparr>data = cleanData, columns = finalCols, headerRowIndex = headerRowIndex,
                 totalRawRows = length rawData\<rparr>)"

section \<open>Number parsing\<close>

definition isDigit :: "16 word \<Rightarrow> bool" where
  "isDigit c \<longleftrightarrow> 0x30 \<le> c \<and> c \<le> 0x39"

definition digitOf :: "16 word \<Rightarrow> nat option" where
  \<comment> \<open>the value of a digit in a radix up to 36\<close>
  "digitOf c =
     (if 0x30 \<le> c \<and> c \<le> 0x39 then Some (unat c - 0x30)
      else if 0x61 \<le> c \<and> c \<le> 0x7A then Some (unat c - 0x61 + 10)
      else if 0x41 \<le> c \<and> c \<le> 0x5A then Some (unat c - 0x41 + 10)
      else None)"

definition isRadixDigit :: "nat \<Rightarrow> 16 word \<Rightarrow> bool" where
  "isRadixDigit radix c = (case digitOf c of None \<Rightarrow> False | Some d \<Rightarrow> d < radix)"

definition digitsValue :: "nat \<Rightarrow> jsstring \<Rightarrow> nat" where
  "digitsValue radix ds = foldl (\<lambda>acc c. radix * acc + the (digitOf c)) 0 ds"

definition pow10 :: "int \<Rightarrow> rat" where
  "pow10 e = (if 0 \<le> e then 10 ^ nat e else 1 / 10 ^ nat (- e))"

definition parseExponent :: "jsstring \<Rightarrow> int option" where
  \<comment> \<open>the optional \<open>ExponentPart\<close> that ends a decimal literal\<close>
  "parseExponent s =
     (case s of
        [] \<Rightarrow> Some 0
      | c # r \<Rightarrow>
          if c = 0x65 \<or> c = 0x45 then
            (let (negative, ds) =
                   (case r of
                      [] \<Rightarrow> (False, [])
                    | d # r' \<Rightarrow> if d = 0x2B then (False, r') else if d = 0x2D then (True, r')
                                else (False, r))
             in if ds \<noteq> [] \<and> list_all isDigit ds
                then Some (if negative then - int (digitsValue 10 ds) else int (digitsValue 10 ds))
                else None)
          else None)"

definition parseUnsignedDecimal :: "jsstring \<Rightarrow> jsnum" where
  \<comment> \<open>\<open>StrUnsignedDecimalLiteral\<close>: \<open>Infinity\<close>, or digits with an optional fraction
      and exponent\<close>
  "parseUnsignedDecimal s =
     (if s = utf16 ''Infinity'' then PosInf
      else
        let intPart = takeWhile isDigit s;
            rest = dropWhile isDigit s;
            (fracPart, rest') =
              (case rest of
                 [] \<Rightarrow> ([], [])
               | c # r \<Rightarrow> if c = 0x2E then (takeWhile isDigit r, dropWhile isDigit r)
                          else ([], rest))
        in if intPart = [] \<and> fracPart = [] then NaN
           else case parseExponent rest' of
                  None \<Rightarrow> NaN
                | Some e \<Rightarrow>
                    Fin (of_nat (digitsValue 10 (intPart @ fracPart))
                         * pow10 (e - int (length fracPart))))"

definition parseRadixLiteral :: "nat \<Rightarrow> jsstring \<Rightarrow> jsnum" where
  "parseRadixLiteral radix ds =
     (if ds \<noteq> [] \<and> list_all (isRadixDigit radix) ds then Fin (of_nat (digitsValue radix ds))
      else NaN)"

definition parseSignedDecimal :: "jsstring \<Rightarrow> jsnum" where
  "parseSignedDecimal s =
     (case s of
        [] \<Rightarrow> NaN
      | c # r \<Rightarrow> if c = 0x2B then parseUnsignedDecimal r
                 else if c = 0x2D then num_neg (parseUnsignedDecimal r)
                 else parseUnsignedDecimal s)"

definition StringToNumber :: "jsstring \<Rightarrow> jsnum" where
  \<comment> \<open>\<open>Number(s)\<close> on a string: white space is trimmed, the empty string is 0, the rest
      must be one numeric literal (decimal, or \<open>0x\<close>, \<open>0o\<close>, \<open>0b\<close> without a sign)\<close>
  "StringToNumber s =
     (let t = trim s
      in if t = [] then Fin 0
         else case t of
                c0 # c1 # r \<Rightarrow>
                  if c0 = 0x30 \<and> (c1 = 0x78 \<or> c1 = 0x58) then parseRadixLiteral 16 r
                  else if c0 = 0x30 \<and> (c1 = 0x6F \<or> c1 = 0x4F) then parseRadixLiteral 8 r
                  else if c0 = 0x30 \<and> (c1 = 0x62 \<or> c1 = 0x42) then parseRadixLiteral 2 r
                  else parseSignedDecimal t
              | _ \<Rightarrow> parseSignedDecimal t)"

text \<open>\<open>Number(v)\<close>.\<close>

fun ToNumber :: "jsval \<Rightarrow> jsnum" where
  "ToNumber JUndefined = NaN"
| "ToNumber JNull = Fin 0"
| "ToNumber (JBool b) = (if b then Fin 1 else Fin 0)"
| "ToNumber (JNum n) = n"
| "ToNumber (JStr s) = StringToNumber s"
| "ToNumber (JDate t) = t"
| "ToNumber JObjectPrototype = NaN"
| "ToNumber (JFunction f) = NaN"


section \<open>Array.prototype.sort\<close>

text \<open>
  \<open>sort\<close> belongs to the runtime, not to this repository. It looks only at the sign of
  what the comparator returns. The language fixes its result when the comparator is a
  consistent comparison function for the elements of the array: it never returns \<open>NaN\<close>,
  every element equals itself, equality is symmetric, and equality, less and greater are
  transitive. The result is then the elements in the order of the comparator, those that
  compare equal in their original order. Otherwise the order of the result is left to the
  engine.
\<close>

definition consistentAt :: "('a \<Rightarrow> 'a \<Rightarrow> jsnum) \<Rightarrow> 'a \<Rightarrow> 'a \<Rightarrow> 'a \<Rightarrow> bool" where
  \<comment> \<open>the requirements on a consistent comparison function, at the values \<open>a\<close>, \<open>b\<close>
      and \<open>c\<close>\<close>
  "consistentAt cmp a b c \<longleftrightarrow>
     \<not> isNaN (cmp a b)
     \<and> num_eq (cmp a a) (Fin 0)
     \<and> (num_eq (cmp a b) (Fin 0) \<longrightarrow> num_eq (cmp b a) (Fin 0))
     \<and> (num_eq (cmp a b) (Fin 0) \<and> num_eq (cmp b c) (Fin 0) \<longrightarrow> num_eq (cmp a c) (Fin 0))
     \<and> (num_lt (cmp a b) (Fin 0) \<and> num_lt (cmp b c) (Fin 0) \<longrightarrow> num_lt (cmp a c) (Fin 0))
     \<and> (num_gt (cmp a b) (Fin 0) \<and> num_gt (cmp b c) (Fin 0) \<longrightarrow> num_gt (cmp a c) (Fin 0))"

definition isConsistent :: "('a \<Rightarrow> 'a \<Rightarrow> jsnum) \<Rightarrow> 'a list \<Rightarrow> bool" where
  "isConsistent cmp xs \<longleftrightarrow>
     (\<forall>a \<in> set xs. \<forall>b \<in> set xs. \<forall>c \<in> set xs. consistentAt cmp a b c)"

text \<open>
  The stable order by a consistent comparator, computed by insertion: each element, from
  the last to the first, goes in front of the first element of the sorted rest that the
  comparator does not put before it.
\<close>

fun insertBy :: "('a \<Rightarrow> 'a \<Rightarrow> jsnum) \<Rightarrow> 'a \<Rightarrow> 'a list \<Rightarrow> 'a list" where
  "insertBy cmp x [] = [x]"
| "insertBy cmp x (y # ys) =
     (if num_gt (cmp x y) (Fin 0) then y # insertBy cmp x ys else x # y # ys)"

fun stableOrder :: "('a \<Rightarrow> 'a \<Rightarrow> jsnum) \<Rightarrow> 'a list \<Rightarrow> 'a list" where
  "stableOrder cmp [] = []"
| "stableOrder cmp (x # xs) = insertBy cmp x (stableOrder cmp xs)"

definition arraySort :: "('a \<Rightarrow> 'a \<Rightarrow> jsnum) \<Rightarrow> 'a list \<Rightarrow> 'a list option" where
  \<comment> \<open>\<open>None\<close>: the comparator is not consistent for these elements and the order of
      the result is implementation-defined\<close>
  "arraySort cmp xs = (if isConsistent cmp xs then Some (stableOrder cmp xs) else None)"

section \<open>xlsxParser: column type inference\<close>

datatype column_type = TString | TNumber | TDate | TBoolean | TMixed

record tally =
  numberCount :: nat
  dateCount :: nat
  booleanCount :: nat
  stringCount :: nat

definition isBlank :: "jsval \<Rightarrow> bool" where
  \<comment> \<open>the complement of \<open>v !== null && v !== undefined && v !== ''\<close>\<close>
  "isBlank v \<longleftrightarrow> v = JNull \<or> v = JUndefined \<or> v = JStr []"

definition isK :: "16 word \<Rightarrow> bool" where
  "isK c \<longleftrightarrow> c = 0x4B \<or> c = 0x6B"

definition isM :: "16 word \<Rightarrow> bool" where
  "isM c \<longleftrightarrow> c = 0x4D \<or> c = 0x6D"

fun stripUnits :: "jsstring \<Rightarrow> jsstring" where
  \<comment> \<open>\<open>.replace(/\<dots>|\<dots>|Km|km/gi, '')\<close>: every occurrence of the currency
      marks U+C6D0 and U+B9CC U+C6D0 and of \<open>km\<close> in either case is removed\<close>
  "stripUnits [] = []"
| "stripUnits [c] = (if c = 0xC6D0 then [] else [c])"
| "stripUnits (c # d # ds) =
     (if c = 0xC6D0 then stripUnits (d # ds)
      else if (c = 0xB9CC \<and> d = 0xC6D0) \<or> (isK c \<and> isM d) then stripUnits ds
      else c # stripUnits (d # ds))"

definition cleanNumberText :: "jsstring \<Rightarrow> jsstring" where
  \<comment> \<open>\<open>value.replace(/[,\s]/g, '')\<close> followed by the removal of the unit suffixes\<close>
  "cleanNumberText s = stripUnits (filter (\<lambda>c. \<not> (c = 0x2C \<or> isWhiteSpace c)) s)"

datatype category = CBoolean | CNumber | CDate | CString

definition categoryOf :: "natives \<Rightarrow> jsval \<Rightarrow> category" where
  \<comment> \<open>the chain of tests in the body of the tally loop, in the source's order\<close>
  "categoryOf host v =
     (if (\<exists>b. v = JBool b) \<or> v = JStr (utf16 ''true'') \<or> v = JStr (utf16 ''false'')
         \<or> v = JStr (utf16 ''TRUE'') \<or> v = JStr (utf16 ''FALSE'')
      then CBoolean
      else case v of
             JNum n \<Rightarrow> if \<not> isNaN n then CNumber else CString
           | JStr s \<Rightarrow>
               (let cleaned = cleanNumberText s
                in if cleaned \<noteq> [] \<and> \<not> isNaN (StringToNumber cleaned) then CNumber
                   else if \<not> isNaN (dateParse host s) then CDate
                   else CString)
           | JDate t \<Rightarrow> if \<not> isNaN t then CDate else CString
           | _ \<Rightarrow> CString)"

definition countValue :: "natives \<Rightarrow> tally \<Rightarrow> jsval \<Rightarrow> tally" where
  "countValue host t v =
     (case categoryOf host v of
        CBoolean \<Rightarrow> t\<lparr>booleanCount := booleanCount t + 1\<rparr>
      | CNumber \<Rightarrow> t\<lparr>numberCount := numberCount t + 1\<rparr>
      | CDate \<Rightarrow> t\<lparr>dateCount := dateCount t + 1\<rparr>
      | CString \<Rightarrow> t\<lparr>stringCount := stringCount t + 1\<rparr>)"

definition tallyValues :: "natives \<Rightarrow> jsval list \<Rightarrow> tally" where
  \<comment> \<open>\<open>for (const value of nonNullValues)\<close>, from four counters at 0\<close>
  "tallyValues host vs =
     foldl (countValue host)
       \<lparr>numberCount = 0, dateCount = 0, booleanCount = 0, stringCount = 0\<rparr> vs"

definition reaches :: "nat \<Rightarrow> nat \<Rightarrow> bool" where
  \<comment> \<open>\<open>count / total >= threshold\<close> with the threshold 0.8. The quotient of two array
      lengths is within half a unit in the last place of 0.8 only when it is \<open>4/5\<close>
      itself, so the binary64 test agrees with the exact one\<close>
  "reaches n totalCount \<longleftrightarrow> (of_nat n / of_nat totalCount :: rat) \<ge> 8 / 10"

definition detectColumnType :: "natives \<Rightarrow> jsval list \<Rightarrow> column_type" where
  "detectColumnType host values =
     (let nonNullValues = filter (\<lambda>v. \<not> isBlank v) values
      in if length nonNullValues = 0 then TString
         else
           let t = tallyValues host nonNullValues;
               totalCount = length nonNullValues
           in if reaches (numberCount t) totalCount then TNumber
              else if reaches (dateCount t) totalCount then TDate
              else if reaches (booleanCount t) totalCount then TBoolean
              else if reaches (stringCount t) totalCount then TString
              else TMixed)"

record ColumnMetadata =
  name :: jsstring
  coltype :: column_type
  nullable :: bool
  uniqueValues :: nat

definition analyzeColumns :: "natives \<Rightarrow> jsobject list \<Rightarrow> ColumnMetadata list" where
  \<comment> \<open>the column names are the keys of the first record; \<open>uniqueValues\<close> counts the
      distinct non-blank values (a \<open>Date\<close> by its time value)\<close>
  "analyzeColumns host rows =
     (case rows of
        [] \<Rightarrow> []
      | first # _ \<Rightarrow>
          map (\<lambda>colName.
                 let values = map (\<lambda>row. get row colName) rows;
                     nonNullValues = filter (\<lambda>v. \<not> isBlank v) values
                 in \<lparr>name = colName, coltype = detectColumnType host values,
                     nullable = (length nonNullValues < length values),
                     uniqueValues = length (remdups nonNullValues)\<rparr>)
            (keys first))"

section \<open>xlsxParser: the ingestion entry point\<close>

record ParseMetadata =
  fileName :: jsstring
  fileType :: jsstring
  totalRows :: nat
  totalColumns :: nat
  parseDate :: jsstring

record ParseResult =
  records :: "jsobject list"
  columnInfo :: "ColumnMetadata list"
  metadata :: ParseMetadata
  error :: "jsstring option"

text \<open>
  The two readers are libraries outside this repository. \<open>parseCSV\<close> resolves with the
  records that the tokenizer hands to its \<open>complete\<close> callback, unchanged, or rejects;
  the workbook reader returns the grid of the first sheet or throws. Both are parameters:
  \<open>Inl\<close> carries the message of the failure.
\<close>

definition parseXLSX ::
  "natives \<Rightarrow> ('b \<Rightarrow> jsstring + jsval list list) \<Rightarrow> 'b \<Rightarrow> jsstring + jsobject list" where
  "parseXLSX host readSheet buffer =
     (case readSheet buffer of
        Inl message \<Rightarrow> Inl message
      | Inr rawData \<Rightarrow>
          Inr (data (parseWorksheetRobust host
                 \<lparr>minHeaderColumns = 2, maxHeaderSearchRows = 20, skipEmptyRows = True,
                  fallbackColumnPrefix = utf16 ''Column''\<rparr> rawData)))"

definition fileExtensionOf :: "natives \<Rightarrow> jsstring \<Rightarrow> jsstring" where
  \<comment> \<open>\<open>fileName.split('.').pop()?.toLowerCase() || ''\<close>\<close>
  "fileExtensionOf host file =
     toLowerCase host (rev (takeWhile (\<lambda>c. c \<noteq> 0x2E) (rev file)))"

definition hasAnyValue :: "jsobject \<Rightarrow> bool" where
  \<comment> \<open>\<open>Object.values(row).some(val => val !== null && val !== undefined && val !== '')\<close>\<close>
  "hasAnyValue row = list_ex (\<lambda>val. \<not> isBlank val) (map snd row)"

definition failedParse :: "natives \<Rightarrow> jsstring \<Rightarrow> jsstring \<Rightarrow> jsstring \<Rightarrow> ParseResult" where
  "failedParse host file extension message =
     \<lparr>records = [], columnInfo = [],
      metadata = \<lparr>fileName = file, fileType = extension, totalRows = 0, totalColumns = 0,
                  parseDate = nowISOString host\<rparr>,
      error = Some message\<rparr>"

definition parseExcelFile ::
  "natives \<Rightarrow> ('b \<Rightarrow> jsstring + jsobject list) \<Rightarrow> ('b \<Rightarrow> jsstring + jsval list list)
     \<Rightarrow> 'b \<Rightarrow> jsstring \<Rightarrow> ParseResult" where
  "parseExcelFile host parseCSV readSheet buffer file =
     (let fileExtension = fileExtensionOf host file;
          parsed =
            (if fileExtension = utf16 ''csv'' then Some (parseCSV buffer)
             else if fileExtension = utf16 ''xlsx'' \<or> fileExtension = utf16 ''xls''
             then Some (parseXLSX host readSheet buffer)
             else None)
      in case parsed of
           None \<Rightarrow> failedParse host file fileExtension (utf16 ''Unsupported file type'')
         | Some (Inl message) \<Rightarrow> failedParse host file fileExtension message
         | Some (Inr rows) \<Rightarrow>
             let kept = filter hasAnyValue rows;
                 cols = analyzeColumns host kept
             in \<lparr>records = kept, columnInfo = cols,
                 metadata = \<lparr>fileName = file, fileType = fileExtension,
                             totalRows = length kept, totalColumns = length cols,
                             parseDate = nowISOString host\<rparr>,
                 error = None\<rparr>)"

section \<open>xlsxParser: filter and sort\<close>

text \<open>
  A filter value is \<open>any\<close>: a primitive or a date, or an object, of which only the
  \<open>min\<close> and \<open>max\<close> properties are read (\<open>undefined\<close> when absent).
\<close>

datatype filter_value = FPrim jsval | FObject jsval jsval

fun includesStr :: "jsstring \<Rightarrow> jsstring \<Rightarrow> bool" where
  \<comment> \<open>\<open>haystack.includes(needle)\<close>\<close>
  "includesStr [] needle = (needle = [])"
| "includesStr (c # cs) needle =
     (take (length needle) (c # cs) = needle \<or> includesStr cs needle)"

fun passesFilters :: "natives \<Rightarrow> jsobject \<Rightarrow> (jsstring \<times> filter_value) list \<Rightarrow> bool" where
  \<comment> \<open>the callback of \<open>data.filter\<close>: the loop over \<open>Object.entries(filters)\<close>\<close>
  "passesFilters host row [] = True"
| "passesFilters host row ((key, value) # rest) =
     (if value = FPrim JUndefined \<or> value = FPrim JNull \<or> value = FPrim (JStr [])
      then passesFilters host row rest
      else
        let rowValue = get row key
        in case value of
             FPrim (JStr s) \<Rightarrow>
               if \<not> includesStr (toLowerCase host (jsString host rowValue)) (toLowerCase host s)
               then False else passesFilters host row rest
           | FPrim (JNum n) \<Rightarrow>
               if \<not> (case rowValue of JNum m \<Rightarrow> num_eq m n | _ \<Rightarrow> False)
               then False else passesFilters host row rest
           | FObject mn mx \<Rightarrow>
               if mn \<noteq> JUndefined \<and> mx \<noteq> JUndefined then
                 (let numValue = ToNumber rowValue
                  in if num_lt numValue (ToNumber mn) \<or> num_gt numValue (ToNumber mx)
                     then False else passesFilters host row rest)
               else passesFilters host row rest
           | _ \<Rightarrow> passesFilters host row rest)"

definition filterData ::
  "natives \<Rightarrow> jsobject list \<Rightarrow> (jsstring \<times> filter_value) list \<Rightarrow> jsobject list" where
  "filterData host rows filters = filter (\<lambda>row. passesFilters host row filters) rows"

datatype direction = Asc | Desc

definition isNullish :: "jsval \<Rightarrow> bool" where
  "isNullish v \<longleftrightarrow> v = JNull \<or> v = JUndefined"

definition compareData :: "natives \<Rightarrow> jsstring \<Rightarrow> direction \<Rightarrow> jsobject \<Rightarrow> jsobject \<Rightarrow> jsnum" where
  \<comment> \<open>the comparator of \<open>sortData\<close>\<close>
  "compareData host sortBy dir a b =
     (let aVal = get a sortBy; bVal = get b sortBy
      in if aVal = JNull \<or> aVal = JUndefined then Fin 1
         else if bVal = JNull \<or> bVal = JUndefined then Fin (- 1)
         else
           let aNum = ToNumber aVal; bNum = ToNumber bVal;
               comparison =
                 (if \<not> isNaN aNum \<and> \<not> isNaN bNum then num_sub aNum bNum
                  else localeCompare host (jsString host aVal) (jsString host bVal))
           in if dir = Asc then comparison else num_neg comparison)"

definition sortData ::
  "natives \<Rightarrow> jsobject list \<Rightarrow> jsstring \<Rightarrow> direction \<Rightarrow> jsobject list option" where
  "sortData host rows sortBy dir = arraySort (compareData host sortBy dir) rows"

section \<open>csvParser: the typed vehicle path\<close>









section \<open>Notions used in the statements\<close>



definition scenarioB :: "jsval list list" where
  \<comment> \<open>three leading rows with one non-empty cell each, then a header of five cells\<close>
  "scenarioB =
     [[JStr (utf16 ''Auction list''), JStr [], JStr [], JStr [], JStr []],
      [JStr [], JStr (utf16 ''2025-10-11''), JStr [], JStr [], JStr []],
      [JNull, JStr (utf16 ''  ''), JStr (utf16 ''undefined''), JStr (utf16 ''x''), JStr []],
      [JStr (utf16 ''No''), JStr (utf16 ''Name''), JStr (utf16 ''Price''),
       JStr (utf16 ''Year''), JStr (utf16 ''Km'')],
      [JStr (utf16 ''0001''), JStr (utf16 ''Car''), JStr (utf16 ''1000''),
       JStr (utf16 ''2020''), JStr (utf16 ''43,437 Km'')]]"

definition sparseGrid :: "jsval list list" where
  \<comment> \<open>no row has two non-empty cells\<close>
  "sparseGrid =
     [[JStr (utf16 ''Total''), JStr [], JStr []],
      [JStr [], JStr (utf16 ''7''), JStr []]]"

definition protoGrid :: "jsval list list" where
  \<comment> \<open>a sheet whose second header cell is the text \<open>__proto__\<close> and whose only data
      row leaves that column blank\<close>
  "protoGrid =
     [[JStr (utf16 ''id''), JStr (utf16 ''__proto__'')],
      [JStr (utf16 ''1''), JStr []]]"

definition raggedRecords :: "jsobject list" where
  \<comment> \<open>what the tokenizer returns, in header mode, for the lines \<open>a,b\<close>, \<open>1,2\<close>
      and \<open>3\<close>: a short line gives a record without the missing fields\<close>
  "raggedRecords =
     [[(utf16 ''a'', JStr (utf16 ''1'')), (utf16 ''b'', JStr (utf16 ''2''))],
      [(utf16 ''a'', JStr (utf16 ''3''))]]"

definition asciiLower :: "16 word \<Rightarrow> 16 word" where
  \<comment> \<open>the lower-case form of a Latin capital letter\<close>
  "asciiLower c = (if 0x41 \<le> c \<and> c \<le> 0x5A then c + 0x20 else c)"

definition isBooleanLiteral :: "jsval \<Rightarrow> bool" where
  \<comment> \<open>a native boolean or one of the four spellings that the tally loop names\<close>
  "isBooleanLiteral v \<longleftrightarrow>
     (\<exists>b. v = JBool b) \<or> v = JStr (utf16 ''true'') \<or> v = JStr (utf16 ''false'')
     \<or> v = JStr (utf16 ''TRUE'') \<or> v = JStr (utf16 ''FALSE'')"

definition priceRecord :: jsobject where
  \<comment> \<open>the record of scenario D whose price is not a number\<close>
  "priceRecord = [(utf16 ''price'', JStr (utf16 ''abc''))]"

definition priceRange :: "(jsstring \<times> filter_value) list" where
  "priceRange = [(utf16 ''price'', FObject (JNum (Fin 1000)) (JNum (Fin 2000)))]"

definition sampleColumn :: "jsval list" where
  \<comment> \<open>five non-blank values, four of them numeric, and two blank ones\<close>
  "sampleColumn =
     [JStr (utf16 ''1,200 Km''), JStr (utf16 ''2''), JNull, JStr (utf16 ''3.5''), JNum (Fin 4),
      JStr (utf16 ''x''), JStr []]"




section \<open>Header discovery\<close>

lemma findHeaderRow_Some_iff:
  "findHeaderRow host rawData m limit i = Some k \<longleftrightarrow>
     i \<le> k \<and> k < limit \<and> isValidHeaderRow host (rawData ! k) m
     \<and> (\<forall>j. i \<le> j \<and> j < k \<longrightarrow> \<not> isValidHeaderRow host (rawData ! j) m)"
proof (induction host rawData m limit i rule: findHeaderRow.induct)
  case (1 host rawData m limit i)
  show ?case
  proof (cases "i < limit")
    case False
    then show ?thesis by (subst findHeaderRow.simps) auto
  next
    case True
    show ?thesis
    proof (cases "isValidHeaderRow host (rawData ! i) m")
      case v: True
      have "findHeaderRow host rawData m limit i = Some i"
        using True v by (subst findHeaderRow.simps) simp
      moreover have "(i \<le> k \<and> k < limit \<and> isValidHeaderRow host (rawData ! k) m
           \<and> (\<forall>j. i \<le> j \<and> j < k \<longrightarrow> \<not> isValidHeaderRow host (rawData ! j) m)) \<longleftrightarrow> k = i"
      proof
        assume h: "i \<le> k \<and> k < limit \<and> isValidHeaderRow host (rawData ! k) m
           \<and> (\<forall>j. i \<le> j \<and> j < k \<longrightarrow> \<not> isValidHeaderRow host (rawData ! j) m)"
        show "k = i"
        proof (rule ccontr)
          assume "k \<noteq> i"
          with h have "i < k" by simp
          with h have "\<not> isValidHeaderRow host (rawData ! i) m" by blast
          with v show False by simp
        qed
      next
        assume "k = i"
        then show "i \<le> k \<and> k < limit \<and> isValidHeaderRow host (rawData ! k) m
           \<and> (\<forall>j. i \<le> j \<and> j < k \<longrightarrow> \<not> isValidHeaderRow host (rawData ! j) m)"
          using True v by auto
      qed
      ultimately show ?thesis by auto
    next
      case nv: False
      have eq: "findHeaderRow host rawData m limit i = findHeaderRow host rawData m limit (Suc i)"
        using True nv by (subst findHeaderRow.simps) simp
      have "(i \<le> k \<and> k < limit \<and> isValidHeaderRow host (rawData ! k) m
           \<and> (\<forall>j. i \<le> j \<and> j < k \<longrightarrow> \<not> isValidHeaderRow host (rawData ! j) m)) \<longleftrightarrow>
            (Suc i \<le> k \<and> k < limit \<and> isValidHeaderRow host (rawData ! k) m
           \<and> (\<forall>j. Suc i \<le> j \<and> j < k \<longrightarrow> \<not> isValidHeaderRow host (rawData ! j) m))"
        using nv by (metis Suc_leD Suc_leI le_neq_implies_less)
      then show ?thesis using "1.IH"[OF True nv] eq by simp
    qed
  qed
qed

lemma findHeaderRow_None_iff:
  "findHeaderRow host rawData m limit i = None \<longleftrightarrow>
     (\<forall>j. i \<le> j \<and> j < limit \<longrightarrow> \<not> isValidHeaderRow host (rawData ! j) m)"
proof (induction host rawData m limit i rule: findHeaderRow.induct)
  case (1 host rawData m limit i)
  show ?case
  proof (cases "i < limit")
    case False
    then show ?thesis by (subst findHeaderRow.simps) auto
  next
    case True
    show ?thesis
    proof (cases "isValidHeaderRow host (rawData ! i) m")
      case v: True
      have "findHeaderRow host rawData m limit i = Some i"
        using True v by (subst findHeaderRow.simps) simp
      then show ?thesis using True v by auto
    next
      case nv: False
      have eq: "findHeaderRow host rawData m limit i = findHeaderRow host rawData m limit (Suc i)"
        using True nv by (subst findHeaderRow.simps) simp
      have "(\<forall>j. i \<le> j \<and> j < limit \<longrightarrow> \<not> isValidHeaderRow host (rawData ! j) m) \<longleftrightarrow>
            (\<forall>j. Suc i \<le> j \<and> j < limit \<longrightarrow> \<not> isValidHeaderRow host (rawData ! j) m)"
        using nv by (metis Suc_leD Suc_leI le_neq_implies_less)
      then show ?thesis using "1.IH"[OF True nv] eq by simp
    qed
  qed
qed

lemma length_normalizeRow [simp]: "length (normalizeRow host row p) = length row"
  by (simp add: normalizeRow_def)

lemma normalizeRow_eq_Nil [simp]: "normalizeRow host row p = [] \<longleftrightarrow> row = []"
  using length_normalizeRow [of host row p] by (metis length_0_conv)

lemma discoverHeader_found:
  assumes "findHeaderRow host rawData (minHeaderColumns options)
             (nat (min (maxHeaderSearchRows options) (int (length rawData)))) 0 = Some k"
  shows "discoverHeader host options rawData
           = (int k, normalizeRow host (rawData ! k) (fallbackColumnPrefix options))"
  using assms by (simp add: discoverHeader_def)

lemma discoverHeader_fallback:
  assumes "findHeaderRow host rawData (minHeaderColumns options)
             (nat (min (maxHeaderSearchRows options) (int (length rawData)))) 0 = None"
      and "rawData \<noteq> []"
  shows "discoverHeader host options rawData
           = (0, normalizeRow host (rawData ! 0) (fallbackColumnPrefix options))"
  using assms by (simp add: discoverHeader_def)

lemma parseWorksheetRobust_headerRowIndex:
  assumes "discoverHeader host options rawData = (int k, normalizeRow host (rawData ! k) p)"
      and "rawData \<noteq> []" and "rawData ! k \<noteq> []"
  shows "headerRowIndex (parseWorksheetRobust host options rawData) = int k"
  using assms by (simp add: parseWorksheetRobust_def Let_def)

section \<open>Row materialization and column pruning\<close>

lemma trim_Nil [simp]: "trim [] = []"
  by (simp add: trim_def)

lemma finalColumns_nonempty: "headers \<noteq> [] \<Longrightarrow> finalColumns host headers rows \<noteq> []"
  by (auto simp: finalColumns_def)

section \<open>Claims about header discovery\<close>

lemma nonEmptyCount_le_length: "nonEmptyCount host row \<le> length row"
  by (simp add: nonEmptyCount_def)

lemma isValidHeaderRow_iff:
  assumes "0 < m \<or> row \<noteq> []"
  shows "isValidHeaderRow host row m \<longleftrightarrow> m \<le> int (nonEmptyCount host row)"
proof (cases "row = []")
  case True
  then show ?thesis using assms by (simp add: isValidHeaderRow_def nonEmptyCount_def)
next
  case False
  then show ?thesis by (simp add: isValidHeaderRow_def)
qed

lemma first_qualifying_row:
  assumes H: "0 < minHeaderColumns options \<or> [] \<notin> set rawData"
      and k: "k < length rawData" "int k < maxHeaderSearchRows options"
      and q: "minHeaderColumns options \<le> int (nonEmptyCount host (rawData ! k))"
      and f: "\<forall>j<k. int (nonEmptyCount host (rawData ! j)) < minHeaderColumns options"
  shows "discoverHeader host options rawData
           = (int k, normalizeRow host (rawData ! k) (fallbackColumnPrefix options))"
    and "headerRowIndex (parseWorksheetRobust host options rawData) = int k"
proof -
  have ne: "\<And>j. j < length rawData \<Longrightarrow> 0 < minHeaderColumns options \<or> rawData ! j \<noteq> []"
    using H by (metis nth_mem)
  have vk: "isValidHeaderRow host (rawData ! k) (minHeaderColumns options)"
    using isValidHeaderRow_iff[OF ne[OF k(1)]] q by simp
  have nv: "\<forall>j. 0 \<le> j \<and> j < k \<longrightarrow> \<not> isValidHeaderRow host (rawData ! j) (minHeaderColumns options)"
  proof (intro allI impI)
    fix j assume "0 \<le> j \<and> j < k"
    then have "j < length rawData" and "int (nonEmptyCount host (rawData ! j)) < minHeaderColumns options"
      using k f by auto
    then show "\<not> isValidHeaderRow host (rawData ! j) (minHeaderColumns options)"
      using isValidHeaderRow_iff[OF ne] by simp
  qed
  have "k < nat (min (maxHeaderSearchRows options) (int (length rawData)))"
    using k by simp
  then have "findHeaderRow host rawData (minHeaderColumns options)
          (nat (min (maxHeaderSearchRows options) (int (length rawData)))) 0 = Some k"
    using vk nv by (simp add: findHeaderRow_Some_iff)
  then show d: "discoverHeader host options rawData
           = (int k, normalizeRow host (rawData ! k) (fallbackColumnPrefix options))"
    by (rule discoverHeader_found)
  have "rawData ! k \<noteq> []"
    using vk by (auto simp: isValidHeaderRow_def)
  moreover have "rawData \<noteq> []" using k by auto
  ultimately show "headerRowIndex (parseWorksheetRobust host options rawData) = int k"
    using d by (rule_tac parseWorksheetRobust_headerRowIndex) auto
qed

text \<open>
  C4. Header discovery takes the first row, among the rows below both the search limit
  and the number of rows, whose count of cells that are not null, not empty after trimming
  and not the text \<open>undefined\<close> reaches \<open>minHeaderColumns\<close>. The row test also
  refuses a row without cells, which the count alone would let pass when
  \<open>minHeaderColumns\<close> is not positive; the grids of the extractor have no such row.
  In particular, with three leading rows of one such cell and a fourth row of five, and
  \<open>minHeaderColumns = 2\<close>, the reported \<open>headerRowIndex\<close> is 3.
\<close>

theorem header_is_first_qualifying_row:
  "((0 < minHeaderColumns options \<or> [] \<notin> set rawData)
      \<and> k < length rawData \<and> int k < maxHeaderSearchRows options
      \<and> minHeaderColumns options \<le> int (nonEmptyCount host (rawData ! k))
      \<and> (\<forall>j<k. int (nonEmptyCount host (rawData ! j)) < minHeaderColumns options)
     \<longrightarrow> discoverHeader host options rawData
           = (int k, normalizeRow host (rawData ! k) (fallbackColumnPrefix options))
         \<and> headerRowIndex (parseWorksheetRobust host options rawData) = int k)
   \<and> (minHeaderColumns options = 2 \<and> 4 \<le> maxHeaderSearchRows options \<and> 4 \<le> length rawData
        \<and> (\<forall>j<3. nonEmptyCount host (rawData ! j) = 1) \<and> nonEmptyCount host (rawData ! 3) = 5
     \<longrightarrow> headerRowIndex (parseWorksheetRobust host options rawData) = 3)"
proof (intro conjI impI)
  assume a: "(0 < minHeaderColumns options \<or> [] \<notin> set rawData)
      \<and> k < length rawData \<and> int k < maxHeaderSearchRows options
      \<and> minHeaderColumns options \<le> int (nonEmptyCount host (rawData ! k))
      \<and> (\<forall>j<k. int (nonEmptyCount host (rawData ! j)) < minHeaderColumns options)"
  then show "discoverHeader host options rawData
           = (int k, normalizeRow host (rawData ! k) (fallbackColumnPrefix options))"
    by (intro first_qualifying_row(1)) auto
  from a show "headerRowIndex (parseWorksheetRobust host options rawData) = int k"
    by (intro first_qualifying_row(2)) auto
next
  assume b: "minHeaderColumns options = 2 \<and> 4 \<le> maxHeaderSearchRows options \<and> 4 \<le> length rawData
        \<and> (\<forall>j<3. nonEmptyCount host (rawData ! j) = 1) \<and> nonEmptyCount host (rawData ! 3) = 5"
  have "headerRowIndex (parseWorksheetRobust host options rawData) = int 3"
    using b by (intro first_qualifying_row(2)) auto
  then show "headerRowIndex (parseWorksheetRobust host options rawData) = 3" by simp
qed

lemmas cell_eval = nonEmptyCount_def countsAsHeaderCell_def trim_def isWhiteSpace_def utf16_def

theorem header_is_first_qualifying_row_witness:
  "\<forall>host. 0 < minHeaderColumns defaultOptions \<and> 3 < length scenarioB
     \<and> int 3 < maxHeaderSearchRows defaultOptions
     \<and> nonEmptyCount host (scenarioB ! 0) = 1 \<and> nonEmptyCount host (scenarioB ! 1) = 1
     \<and> nonEmptyCount host (scenarioB ! 2) = 1 \<and> nonEmptyCount host (scenarioB ! 3) = 5
     \<and> discoverHeader host defaultOptions scenarioB
         = (3, [utf16 ''No'', utf16 ''Name'', utf16 ''Price'', utf16 ''Year'', utf16 ''Km''])
     \<and> headerRowIndex (parseWorksheetRobust host defaultOptions scenarioB) = 3"
proof
  fix host
  have o: "0 < minHeaderColumns defaultOptions" "int 3 < maxHeaderSearchRows defaultOptions"
    "minHeaderColumns defaultOptions = 2" "4 \<le> maxHeaderSearchRows defaultOptions"
    by (simp_all add: defaultOptions_def)
  have l: "3 < length scenarioB" "4 \<le> length scenarioB"
    by (simp_all add: scenarioB_def)
  have c: "nonEmptyCount host (scenarioB ! 0) = 1" "nonEmptyCount host (scenarioB ! 1) = 1"
    "nonEmptyCount host (scenarioB ! 2) = 1" "nonEmptyCount host (scenarioB ! 3) = 5"
    by (simp_all add: scenarioB_def cell_eval)
  have all: "\<forall>j<3. nonEmptyCount host (scenarioB ! j) = 1"
  proof (intro allI impI)
    fix j :: nat assume "j < 3"
    then have "j = 0 \<or> j = 1 \<or> j = 2" by auto
    then show "nonEmptyCount host (scenarioB ! j) = 1" using c by auto
  qed
  have before: "\<forall>j<3. int (nonEmptyCount host (scenarioB ! j)) < minHeaderColumns defaultOptions"
    using all o(3) by simp
  have here: "minHeaderColumns defaultOptions \<le> int (nonEmptyCount host (scenarioB ! 3))"
    using c(4) o(3) by simp
  note t = header_is_first_qualifying_row [of defaultOptions scenarioB 3 host]
  have n: "normalizeRow host (scenarioB ! 3) (fallbackColumnPrefix defaultOptions)
             = [utf16 ''No'', utf16 ''Name'', utf16 ''Price'', utf16 ''Year'', utf16 ''Km'']"
    by (simp add: scenarioB_def defaultOptions_def normalizeRow_def normalizeHeader_def
          enumerate_eq_zip upt_rec utf16_def trim_def isWhiteSpace_def)
  have d: "discoverHeader host defaultOptions scenarioB
         = (3, [utf16 ''No'', utf16 ''Name'', utf16 ''Price'', utf16 ''Year'', utf16 ''Km''])"
    using t o(1,2) l(1) before here n by simp
  have h: "headerRowIndex (parseWorksheetRobust host defaultOptions scenarioB) = 3"
    using t o(3,4) l(2) all c(4) by blast
  show "0 < minHeaderColumns defaultOptions \<and> 3 < length scenarioB
     \<and> int 3 < maxHeaderSearchRows defaultOptions
     \<and> nonEmptyCount host (scenarioB ! 0) = 1 \<and> nonEmptyCount host (scenarioB ! 1) = 1
     \<and> nonEmptyCount host (scenarioB ! 2) = 1 \<and> nonEmptyCount host (scenarioB ! 3) = 5
     \<and> discoverHeader host defaultOptions scenarioB
         = (3, [utf16 ''No'', utf16 ''Name'', utf16 ''Price'', utf16 ''Year'', utf16 ''Km''])
     \<and> headerRowIndex (parseWorksheetRobust host defaultOptions scenarioB) = 3"
    using o(1,2) l(1) c d h by blast
qed

text \<open>
  C5. On a grid with at least one row in which no row of the search window is a valid
  header row, header discovery takes row 0 as the header; and on every grid with at least
  one row it yields some row of the grid as the header. When row 0 has a cell, the outcome
  reports \<open>headerRowIndex = 0\<close> and a column list that is not empty.
\<close>

theorem first_row_is_fallback_header:
  "(rawData \<noteq> []
      \<and> (\<forall>j. j < length rawData \<and> int j < maxHeaderSearchRows options
             \<longrightarrow> \<not> isValidHeaderRow host (rawData ! j) (minHeaderColumns options))
     \<longrightarrow> discoverHeader host options rawData
           = (0, normalizeRow host (rawData ! 0) (fallbackColumnPrefix options))
         \<and> (rawData ! 0 \<noteq> []
              \<longrightarrow> headerRowIndex (parseWorksheetRobust host options rawData) = 0
                  \<and> columns (parseWorksheetRobust host options rawData) \<noteq> []))
   \<and> (rawData \<noteq> []
     \<longrightarrow> (\<exists>k<length rawData. discoverHeader host options rawData
           = (int k, normalizeRow host (rawData ! k) (fallbackColumnPrefix options))))"
proof (intro conjI impI)
  assume a: "rawData \<noteq> []
      \<and> (\<forall>j. j < length rawData \<and> int j < maxHeaderSearchRows options
             \<longrightarrow> \<not> isValidHeaderRow host (rawData ! j) (minHeaderColumns options))"
  have "findHeaderRow host rawData (minHeaderColumns options)
          (nat (min (maxHeaderSearchRows options) (int (length rawData)))) 0 = None"
  proof -
    have "\<forall>j. 0 \<le> j \<and> j < nat (min (maxHeaderSearchRows options) (int (length rawData)))
            \<longrightarrow> \<not> isValidHeaderRow host (rawData ! j) (minHeaderColumns options)"
    proof (intro allI impI)
      fix j
      assume "0 \<le> j \<and> j < nat (min (maxHeaderSearchRows options) (int (length rawData)))"
      then have "j < length rawData \<and> int j < maxHeaderSearchRows options"
        by arith
      then show "\<not> isValidHeaderRow host (rawData ! j) (minHeaderColumns options)"
        using a by blast
    qed
    then show ?thesis by (simp only: findHeaderRow_None_iff)
  qed
  then show d: "discoverHeader host options rawData
           = (0, normalizeRow host (rawData ! 0) (fallbackColumnPrefix options))"
    using a by (intro discoverHeader_fallback) auto
  assume r: "rawData ! 0 \<noteq> []"
  show "headerRowIndex (parseWorksheetRobust host options rawData) = 0"
    using a d r by (simp add: parseWorksheetRobust_def Let_def)
  show "columns (parseWorksheetRobust host options rawData) \<noteq> []"
    using a d r by (simp add: parseWorksheetRobust_def Let_def finalColumns_nonempty)
next
  assume ne: "rawData \<noteq> []"
  show "\<exists>k<length rawData. discoverHeader host options rawData
           = (int k, normalizeRow host (rawData ! k) (fallbackColumnPrefix options))"
  proof (cases "findHeaderRow host rawData (minHeaderColumns options)
          (nat (min (maxHeaderSearchRows options) (int (length rawData)))) 0")
    case None
    then have "discoverHeader host options rawData
           = (int 0, normalizeRow host (rawData ! 0) (fallbackColumnPrefix options))"
      using ne by (simp add: discoverHeader_fallback)
    then show ?thesis using ne by blast
  next
    case (Some k)
    then have "k < nat (min (maxHeaderSearchRows options) (int (length rawData)))"
      by (simp add: findHeaderRow_Some_iff)
    then have "k < length rawData" by simp
    then show ?thesis using discoverHeader_found[OF Some] by blast
  qed
qed

theorem first_row_is_fallback_header_witness:
  "\<forall>host. length sparseGrid = 2 \<and> sparseGrid ! 0 \<noteq> []
     \<and> \<not> isValidHeaderRow host (sparseGrid ! 0) (minHeaderColumns defaultOptions)
     \<and> \<not> isValidHeaderRow host (sparseGrid ! 1) (minHeaderColumns defaultOptions)
     \<and> discoverHeader host defaultOptions sparseGrid
           = (0, [utf16 ''Total'', utf16 ''Column B'', utf16 ''Column C''])
     \<and> headerRowIndex (parseWorksheetRobust host defaultOptions sparseGrid) = 0"
proof
  fix host
  have v: "\<not> isValidHeaderRow host (sparseGrid ! 0) (minHeaderColumns defaultOptions)"
    "\<not> isValidHeaderRow host (sparseGrid ! 1) (minHeaderColumns defaultOptions)"
    by (simp_all add: sparseGrid_def defaultOptions_def isValidHeaderRow_def cell_eval)
  have len: "length sparseGrid = 2"
    by (simp add: sparseGrid_def)
  have all: "\<forall>j. j < length sparseGrid \<and> int j < maxHeaderSearchRows defaultOptions
             \<longrightarrow> \<not> isValidHeaderRow host (sparseGrid ! j) (minHeaderColumns defaultOptions)"
  proof (intro allI impI)
    fix j :: nat assume "j < length sparseGrid \<and> int j < maxHeaderSearchRows defaultOptions"
    then have "j = 0 \<or> j = 1" using len by auto
    then show "\<not> isValidHeaderRow host (sparseGrid ! j) (minHeaderColumns defaultOptions)"
      using v by auto
  qed
  have ne: "sparseGrid \<noteq> []" "sparseGrid ! 0 \<noteq> []"
    by (simp_all add: sparseGrid_def)
  have n: "normalizeRow host (sparseGrid ! 0) (fallbackColumnPrefix defaultOptions)
             = [utf16 ''Total'', utf16 ''Column B'', utf16 ''Column C'']"
    by (simp add: sparseGrid_def defaultOptions_def normalizeRow_def normalizeHeader_def
          enumerate_eq_zip upt_rec utf16_def trim_def isWhiteSpace_def fromCharCode_def)
  note t = first_row_is_fallback_header [of sparseGrid defaultOptions host]
  from t all ne have "discoverHeader host defaultOptions sparseGrid
         = (0, normalizeRow host (sparseGrid ! 0) (fallbackColumnPrefix defaultOptions))"
    by blast
  then have d: "discoverHeader host defaultOptions sparseGrid
           = (0, [utf16 ''Total'', utf16 ''Column B'', utf16 ''Column C''])"
    by (simp only: n)
  from t all ne
  have h: "headerRowIndex (parseWorksheetRobust host defaultOptions sparseGrid) = 0"
    by blast
  show "length sparseGrid = 2 \<and> sparseGrid ! 0 \<noteq> []
     \<and> \<not> isValidHeaderRow host (sparseGrid ! 0) (minHeaderColumns defaultOptions)
     \<and> \<not> isValidHeaderRow host (sparseGrid ! 1) (minHeaderColumns defaultOptions)
     \<and> discoverHeader host defaultOptions sparseGrid
           = (0, [utf16 ''Total'', utf16 ''Column B'', utf16 ''Column C''])
     \<and> headerRowIndex (parseWorksheetRobust host defaultOptions sparseGrid) = 0"
    using len ne(2) v d h by blast
qed






section \<open>Claims about the materialized records\<close>

lemmas grid_eval = discoverHeader_def findHeaderRow.simps isValidHeaderRow_def nonEmptyCount_def
  countsAsHeaderCell_def normalizeRow_def normalizeHeader_def enumerate_eq_zip upt_rec utf16_def
  trim_def isWhiteSpace_def fromCharCode_def defaultOptions_def

lemma protoGrid_header:
  "discoverHeader host defaultOptions protoGrid = (0, [utf16 ''id'', utf16 ''__proto__''])"
  by (simp add: protoGrid_def grid_eval)

lemma protoGrid_rows:
  "materializeRows host True [utf16 ''id'', utf16 ''__proto__''] (drop (Suc 0) protoGrid)
     = [[(utf16 ''id'', utf16 ''1'')]]"
  by (simp add: protoGrid_def hasData_def makeRowObject_def assignText_def cellAt_def
        enumerate_eq_zip upt_rec utf16_def trim_def isWhiteSpace_def Let_def)

lemma protoGrid_holdsData:
  "holdsData host [(utf16 ''id'', utf16 ''1'')] (utf16 ''id'')"
  "holdsData host [(utf16 ''id'', utf16 ''1'')] (utf16 ''__proto__'')"
  by (simp_all add: holdsData_def getText_def inherited_def utf16_def trim_def isWhiteSpace_def)

lemma protoGrid_finalColumns:
  "finalColumns host [utf16 ''id'', utf16 ''__proto__''] [[(utf16 ''id'', utf16 ''1'')]]
     = [utf16 ''id'', utf16 ''__proto__'']"
  by (simp add: finalColumns_def columnsWithData_def protoGrid_holdsData)

lemma protoGrid_cleanRow:
  "cleanRow [utf16 ''id'', utf16 ''__proto__''] [(utf16 ''id'', utf16 ''1'')]
     = [(utf16 ''id'', JStr (utf16 ''1''))]"
  by (simp add: cleanRow_def getText_def inherited_def utf16_def Let_def)

lemma protoGrid_parse:
  "parseWorksheetRobust host defaultOptions protoGrid
     = \<lparr>data = [[(utf16 ''id'', JStr (utf16 ''1''))]],
        columns = [utf16 ''id'', utf16 ''__proto__''], headerRowIndex = 0, totalRawRows = 2\<rparr>"
proof -
  have len: "length protoGrid = 2"
    by (simp add: protoGrid_def)
  have skip: "skipEmptyRows defaultOptions = True"
    by (simp add: defaultOptions_def)
  show ?thesis
    unfolding parseWorksheetRobust_def protoGrid_header
    by (simp add: len skip protoGrid_rows protoGrid_finalColumns protoGrid_cleanRow)
qed

text \<open>
  C7 on the code: in \<open>protoGrid\<close> the column \<open>__proto__\<close> is blank in the only data row
  and the materialized record holds nothing under that name, yet the column filter reads
  \<open>Object.prototype\<close> through the record and keeps the column: the final columns are
  \<open>id\<close> and \<open>__proto__\<close>, and no record has a value in the second, where the claim has
  the column dropped.
\<close>

theorem proto_column_survives_pruning:
  "cellAt (protoGrid ! 1) 1 = JStr []
   \<and> materializeRows host True (snd (discoverHeader host defaultOptions protoGrid))
       (drop 1 protoGrid) = [[(utf16 ''id'', utf16 ''1'')]]
   \<and> columns (parseWorksheetRobust host defaultOptions protoGrid)
       = [utf16 ''id'', utf16 ''__proto__'']
   \<and> data (parseWorksheetRobust host defaultOptions protoGrid)
       = [[(utf16 ''id'', JStr (utf16 ''1''))]]"
proof -
  have "cellAt (protoGrid ! 1) 1 = JStr []"
    by (simp add: protoGrid_def cellAt_def)
  then show ?thesis
    by (simp add: protoGrid_parse protoGrid_header protoGrid_rows)
qed

lemma names_analyzeColumns:
  "map name (analyzeColumns host rows) = (case rows of [] \<Rightarrow> [] | first # _ \<Rightarrow> keys first)"
  by (cases rows) (simp_all add: analyzeColumns_def Let_def comp_def)

lemma parseExcelFile_csv:
  assumes "fileExtensionOf host fname = utf16 ''csv''" and "parseCSV buffer = Inr rows"
  shows "records (parseExcelFile host parseCSV readSheet buffer fname) = filter hasAnyValue rows"
    and "columnInfo (parseExcelFile host parseCSV readSheet buffer fname)
           = analyzeColumns host (filter hasAnyValue rows)"
  using assms by (simp_all add: parseExcelFile_def Let_def)

lemma ext_csv:
  "fileExtensionOf (host\<lparr>toLowerCase := (\<lambda>s. s)\<rparr>) (utf16 ''a.csv'') = utf16 ''csv''"
  by (simp add: fileExtensionOf_def utf16_def)

lemma raggedRecords_kept: "filter hasAnyValue raggedRecords = raggedRecords"
  by (simp add: raggedRecords_def hasAnyValue_def isBlank_def utf16_def)

text \<open>
  C2 on the code: the outcome for \<open>protoGrid\<close> has the columns \<open>id\<close> and \<open>__proto__\<close>
  and one record, whose only key is \<open>id\<close>. On the CSV path the records of the tokenizer
  are passed on as they are: with \<open>raggedRecords\<close> the columns are \<open>a\<close> and \<open>b\<close> and
  the second record has only the key \<open>a\<close>. The claim has every record carry exactly the
  column list as its keys.
\<close>

theorem records_can_miss_a_column:
  "columns (parseWorksheetRobust host defaultOptions protoGrid)
     = [utf16 ''id'', utf16 ''__proto__'']
   \<and> map keys (data (parseWorksheetRobust host defaultOptions protoGrid)) = [[utf16 ''id'']]
   \<and> map keys (records (parseExcelFile (host\<lparr>toLowerCase := (\<lambda>s. s)\<rparr>)
                  (\<lambda>_ :: unit. Inr raggedRecords) readSheet () (utf16 ''a.csv'')))
       = [[utf16 ''a'', utf16 ''b''], [utf16 ''a'']]
   \<and> map name (columnInfo (parseExcelFile (host\<lparr>toLowerCase := (\<lambda>s. s)\<rparr>)
                  (\<lambda>_ :: unit. Inr raggedRecords) readSheet () (utf16 ''a.csv'')))
       = [utf16 ''a'', utf16 ''b'']"
proof -
  have e: "fileExtensionOf (host\<lparr>toLowerCase := (\<lambda>s. s)\<rparr>) (utf16 ''a.csv'') = utf16 ''csv''"
    by (rule ext_csv)
  have r: "records (parseExcelFile (host\<lparr>toLowerCase := (\<lambda>s. s)\<rparr>)
                  (\<lambda>_ :: unit. Inr raggedRecords) readSheet () (utf16 ''a.csv''))
             = raggedRecords"
    using parseExcelFile_csv(1) [where parseCSV = "\<lambda>_ :: unit. Inr raggedRecords"
        and buffer = "()" and rows = raggedRecords, OF e]
    by (simp add: raggedRecords_kept)
  have c: "map name (columnInfo (parseExcelFile (host\<lparr>toLowerCase := (\<lambda>s. s)\<rparr>)
                  (\<lambda>_ :: unit. Inr raggedRecords) readSheet () (utf16 ''a.csv'')))
             = [utf16 ''a'', utf16 ''b'']"
    using parseExcelFile_csv(2) [where parseCSV = "\<lambda>_ :: unit. Inr raggedRecords"
        and buffer = "()" and rows = raggedRecords, OF e]
    by (simp add: raggedRecords_kept names_analyzeColumns) (simp add: raggedRecords_def keys_def)
  have k: "map keys raggedRecords = [[utf16 ''a'', utf16 ''b''], [utf16 ''a'']]"
    by (simp add: raggedRecords_def keys_def)
  show ?thesis
    unfolding r c k by (simp add: protoGrid_parse keys_def)
qed

section \<open>Claims about type inference and the range filter\<close>

lemmas num_eval = StringToNumber_def trim_def isWhiteSpace_def utf16_def parseSignedDecimal_def
  parseUnsignedDecimal_def parseExponent_def isDigit_def digitsValue_def digitOf_def pow10_def
  parseRadixLiteral_def isRadixDigit_def

text \<open>
  C1 on the code: in scenario D the price \<open>abc\<close> coerces to \<open>NaN\<close>, both
  comparisons of the range test are false for it, and the record stays in the output of
  \<open>filterData\<close>, where the claim has it excluded.
\<close>

theorem range_filter_keeps_non_numeric_record:
  "ToNumber (get priceRecord (utf16 ''price'')) = NaN
   \<and> filterData host [priceRecord] priceRange = [priceRecord]"
  by (simp add: filterData_def priceRecord_def priceRange_def get_def num_gt_def num_eval)

lemma num_lt_NaN_right [simp]: "num_lt a NaN = False"
  by (cases a) simp_all

lemma nan_passes_range:
  assumes "isNaN (ToNumber (get row key))"
  shows "passesFilters host row ((key, FObject mn mx) # rest) = passesFilters host row rest"
proof -
  have "ToNumber (get row key) = NaN" using assms by (cases "ToNumber (get row key)") auto
  then show ?thesis by (simp add: num_gt_def)
qed

lemma categoryOf_Boolean_iff: "categoryOf host v = CBoolean \<longleftrightarrow> isBooleanLiteral v"
  by (cases v) (auto simp: categoryOf_def isBooleanLiteral_def Let_def)

lemma countValue_counts:
  "numberCount (countValue host t v) = numberCount t + (if categoryOf host v = CNumber then 1 else 0)"
  "dateCount (countValue host t v) = dateCount t + (if categoryOf host v = CDate then 1 else 0)"
  "booleanCount (countValue host t v) = booleanCount t + (if categoryOf host v = CBoolean then 1 else 0)"
  "stringCount (countValue host t v) = stringCount t + (if categoryOf host v = CString then 1 else 0)"
  by (cases "categoryOf host v"; simp add: countValue_def)+

lemma foldl_countValue:
  "numberCount (foldl (countValue host) t vs)
     = numberCount t + length (filter (\<lambda>v. categoryOf host v = CNumber) vs)"
  "dateCount (foldl (countValue host) t vs)
     = dateCount t + length (filter (\<lambda>v. categoryOf host v = CDate) vs)"
  "booleanCount (foldl (countValue host) t vs)
     = booleanCount t + length (filter (\<lambda>v. categoryOf host v = CBoolean) vs)"
  "stringCount (foldl (countValue host) t vs)
     = stringCount t + length (filter (\<lambda>v. categoryOf host v = CString) vs)"
  by (induction vs arbitrary: t; simp add: countValue_counts)+

lemma tallyValues_counts:
  "numberCount (tallyValues host vs) = length (filter (\<lambda>v. categoryOf host v = CNumber) vs)"
  "dateCount (tallyValues host vs) = length (filter (\<lambda>v. categoryOf host v = CDate) vs)"
  "booleanCount (tallyValues host vs) = length (filter (\<lambda>v. categoryOf host v = CBoolean) vs)"
  "stringCount (tallyValues host vs) = length (filter (\<lambda>v. categoryOf host v = CString) vs)"
  by (simp_all add: tallyValues_def foldl_countValue)

lemma category_partition:
  "length (filter (\<lambda>v. categoryOf host v = CNumber) vs)
   + length (filter (\<lambda>v. categoryOf host v = CDate) vs)
   + length (filter (\<lambda>v. categoryOf host v = CBoolean) vs)
   + length (filter (\<lambda>v. categoryOf host v = CString) vs) = length vs"
proof (induction vs)
  case Nil
  show ?case by simp
next
  case (Cons v vs)
  then show ?case by (cases "categoryOf host v") simp_all
qed

lemma tallyValues_total:
  "numberCount (tallyValues host vs) + dateCount (tallyValues host vs)
   + booleanCount (tallyValues host vs) + stringCount (tallyValues host vs) = length vs"
  by (simp add: tallyValues_counts category_partition)

text \<open>
  C3 (as amended). A value is tallied as boolean exactly when it is a native boolean or one
  of the four texts \<open>true\<close>, \<open>false\<close>, \<open>TRUE\<close>, \<open>FALSE\<close>.
\<close>

theorem boolean_literals_are_the_four_spellings:
  "(categoryOf host v = CBoolean \<longleftrightarrow> isBooleanLiteral v)
   \<and> booleanCount (tallyValues host vs) = length (filter isBooleanLiteral vs)"
  by (simp add: categoryOf_Boolean_iff tallyValues_counts)

text \<open>
  C3 as stated fails for the mixed-case spellings: \<open>True\<close> equals \<open>true\<close> when case
  is ignored and is not tallied as boolean.
\<close>

theorem mixed_case_true_is_not_boolean:
  "\<not> (\<forall>host s. map asciiLower s = utf16 ''true'' \<or> map asciiLower s = utf16 ''false''
        \<longrightarrow> categoryOf host (JStr s) = CBoolean)"
proof
  assume "\<forall>host s. map asciiLower s = utf16 ''true'' \<or> map asciiLower s = utf16 ''false''
        \<longrightarrow> categoryOf host (JStr s) = CBoolean"
  moreover have "map asciiLower (utf16 ''True'') = utf16 ''true''"
    by (simp add: asciiLower_def utf16_def)
  ultimately have "categoryOf undefined (JStr (utf16 ''True'')) = CBoolean"
    by blast
  then have "isBooleanLiteral (JStr (utf16 ''True''))"
    by (simp add: categoryOf_Boolean_iff)
  then show False
    by (simp add: isBooleanLiteral_def utf16_def)
qed

lemma reaches_iff:
  assumes "0 < t"
  shows "reaches n t \<longleftrightarrow> 4 * t \<le> 5 * n"
proof -
  have "reaches n t \<longleftrightarrow> 8 * (of_nat t :: rat) \<le> 10 * of_nat n"
    using assms by (simp add: reaches_def field_simps)
  also have "\<dots> \<longleftrightarrow> (of_nat (8 * t) :: rat) \<le> of_nat (10 * n)"
    by simp
  also have "\<dots> \<longleftrightarrow> 8 * t \<le> 10 * n"
    by (rule of_nat_le_iff)
  also have "\<dots> \<longleftrightarrow> 4 * t \<le> 5 * n"
    by arith
  finally show ?thesis .
qed


lemma detectColumnType_unfold:
  assumes "filter (\<lambda>v. \<not> isBlank v) values \<noteq> []"
  shows "detectColumnType host values =
     (let nonNull = filter (\<lambda>v. \<not> isBlank v) values; t = tallyValues host nonNull
      in if reaches (numberCount t) (length nonNull) then TNumber
         else if reaches (dateCount t) (length nonNull) then TDate
         else if reaches (booleanCount t) (length nonNull) then TBoolean
         else if reaches (stringCount t) (length nonNull) then TString
         else TMixed)"
  using assms by (simp add: detectColumnType_def Let_def)

lemma reaches_exclusive:
  assumes "reaches a t" and "reaches b t" and "a + b \<le> t" and "0 < t"
  shows False
  using assms by (simp add: reaches_iff)

text \<open>
  C9. Each non-blank value adds one to exactly one of the four counters, the one of its
  category, so the counters add up to the number of non-blank values. A column without
  non-blank values is \<open>string\<close>. Otherwise, a category whose count divided by that
  number is at least 0.8 (that is, \<open>4 * total \<le> 5 * count\<close>) gives the column its
  type, and the column is \<open>mixed\<close> when no category reaches it.
\<close>

theorem column_type_by_share:
  assumes "nonNull = filter (\<lambda>v. \<not> isBlank v) values" and "t = tallyValues host nonNull"
  shows "numberCount t = length (filter (\<lambda>v. categoryOf host v = CNumber) nonNull)
       \<and> dateCount t = length (filter (\<lambda>v. categoryOf host v = CDate) nonNull)
       \<and> booleanCount t = length (filter (\<lambda>v. categoryOf host v = CBoolean) nonNull)
       \<and> stringCount t = length (filter (\<lambda>v. categoryOf host v = CString) nonNull)
       \<and> numberCount t + dateCount t + booleanCount t + stringCount t = length nonNull
       \<and> (nonNull = [] \<longrightarrow> detectColumnType host values = TString)
       \<and> (nonNull \<noteq> [] \<longrightarrow>
            (reaches (numberCount t) (length nonNull) \<longrightarrow> detectColumnType host values = TNumber)
          \<and> (reaches (dateCount t) (length nonNull) \<longrightarrow> detectColumnType host values = TDate)
          \<and> (reaches (booleanCount t) (length nonNull)
                \<longrightarrow> detectColumnType host values = TBoolean)
          \<and> (reaches (stringCount t) (length nonNull) \<longrightarrow> detectColumnType host values = TString)
          \<and> (\<not> reaches (numberCount t) (length nonNull) \<and> \<not> reaches (dateCount t) (length nonNull)
              \<and> \<not> reaches (booleanCount t) (length nonNull)
              \<and> \<not> reaches (stringCount t) (length nonNull)
                \<longrightarrow> detectColumnType host values = TMixed)
          \<and> (\<forall>n. reaches n (length nonNull) \<longleftrightarrow> 4 * length nonNull \<le> 5 * n))"
proof -
  have counts: "numberCount t = length (filter (\<lambda>v. categoryOf host v = CNumber) nonNull)"
    "dateCount t = length (filter (\<lambda>v. categoryOf host v = CDate) nonNull)"
    "booleanCount t = length (filter (\<lambda>v. categoryOf host v = CBoolean) nonNull)"
    "stringCount t = length (filter (\<lambda>v. categoryOf host v = CString) nonNull)"
    by (simp_all add: assms(2) tallyValues_counts)
  have total: "numberCount t + dateCount t + booleanCount t + stringCount t = length nonNull"
    by (simp add: assms(2) tallyValues_total)
  have empty: "detectColumnType host values = TString" if "nonNull = []"
    using that assms(1) by (simp add: detectColumnType_def)
  have split: "detectColumnType host values =
      (if reaches (numberCount t) (length nonNull) then TNumber
       else if reaches (dateCount t) (length nonNull) then TDate
       else if reaches (booleanCount t) (length nonNull) then TBoolean
       else if reaches (stringCount t) (length nonNull) then TString
       else TMixed)" if "nonNull \<noteq> []"
    using that assms by (simp add: detectColumnType_unfold Let_def)
  have pos: "0 < length nonNull" if "nonNull \<noteq> []"
    using that by simp
  have excl: "\<And>a b. reaches a (length nonNull) \<Longrightarrow> reaches b (length nonNull)
                \<Longrightarrow> a + b \<le> length nonNull \<Longrightarrow> nonNull \<noteq> [] \<Longrightarrow> False"
    using reaches_exclusive pos by blast
  have num: "detectColumnType host values = TNumber"
    if "nonNull \<noteq> []" "reaches (numberCount t) (length nonNull)"
    using that split by simp
  have dat: "detectColumnType host values = TDate"
    if "nonNull \<noteq> []" "reaches (dateCount t) (length nonNull)"
  proof -
    have "\<not> reaches (numberCount t) (length nonNull)"
      using excl [of "numberCount t" "dateCount t"] that total by auto
    then show ?thesis using that split by simp
  qed
  have boo: "detectColumnType host values = TBoolean"
    if "nonNull \<noteq> []" "reaches (booleanCount t) (length nonNull)"
  proof -
    have "\<not> reaches (numberCount t) (length nonNull)"
      using excl [of "numberCount t" "booleanCount t"] that total by auto
    moreover have "\<not> reaches (dateCount t) (length nonNull)"
      using excl [of "dateCount t" "booleanCount t"] that total by auto
    ultimately show ?thesis using that split by simp
  qed
  have str: "detectColumnType host values = TString"
    if "nonNull \<noteq> []" "reaches (stringCount t) (length nonNull)"
  proof -
    have "\<not> reaches (numberCount t) (length nonNull)"
      using excl [of "numberCount t" "stringCount t"] that total by auto
    moreover have "\<not> reaches (dateCount t) (length nonNull)"
      using excl [of "dateCount t" "stringCount t"] that total by auto
    moreover have "\<not> reaches (booleanCount t) (length nonNull)"
      using excl [of "booleanCount t" "stringCount t"] that total by auto
    ultimately show ?thesis using that split by simp
  qed
  have mix: "detectColumnType host values = TMixed"
    if "nonNull \<noteq> []" "\<not> reaches (numberCount t) (length nonNull)"
       "\<not> reaches (dateCount t) (length nonNull)" "\<not> reaches (booleanCount t) (length nonNull)"
       "\<not> reaches (stringCount t) (length nonNull)"
    using that split by simp
  have ri: "\<forall>n. reaches n (length nonNull) \<longleftrightarrow> 4 * length nonNull \<le> 5 * n" if "nonNull \<noteq> []"
    using reaches_iff [OF pos [OF that]] by blast
  show ?thesis
    using counts total empty num dat boo str mix ri by blast
qed

lemma sampleColumn_nonNull:
  "filter (\<lambda>v. \<not> isBlank v) sampleColumn
     = [JStr (utf16 ''1,200 Km''), JStr (utf16 ''2''), JStr (utf16 ''3.5''), JNum (Fin 4),
        JStr (utf16 ''x'')]"
  by (simp add: sampleColumn_def isBlank_def utf16_def)

lemma sampleColumn_categories:
  "categoryOf host (JStr (utf16 ''1,200 Km'')) = CNumber"
  "categoryOf host (JStr (utf16 ''2'')) = CNumber"
  "categoryOf host (JStr (utf16 ''3.5'')) = CNumber"
  "categoryOf host (JNum (Fin 4)) = CNumber"
  "categoryOf host (JStr (utf16 ''x'')) \<noteq> CNumber"
  by (simp_all add: categoryOf_def cleanNumberText_def isK_def isM_def num_eval Let_def)

theorem column_type_by_share_witness:
  "\<forall>host. filter (\<lambda>v. \<not> isBlank v) sampleColumn \<noteq> []
     \<and> reaches (numberCount (tallyValues host (filter (\<lambda>v. \<not> isBlank v) sampleColumn)))
         (length (filter (\<lambda>v. \<not> isBlank v) sampleColumn))
     \<and> detectColumnType host sampleColumn = TNumber
     \<and> detectColumnType host [JNull, JStr []] = TString
     \<and> detectColumnType host [JBool True, JNum (Fin 1)] = TMixed"
proof
  fix host
  have ne: "filter (\<lambda>v. \<not> isBlank v) sampleColumn \<noteq> []"
    by (simp add: sampleColumn_nonNull)
  have n: "numberCount (tallyValues host (filter (\<lambda>v. \<not> isBlank v) sampleColumn)) = 4"
    by (simp add: tallyValues_counts sampleColumn_nonNull sampleColumn_categories)
  have r: "reaches (numberCount (tallyValues host (filter (\<lambda>v. \<not> isBlank v) sampleColumn)))
         (length (filter (\<lambda>v. \<not> isBlank v) sampleColumn))"
    unfolding n by (simp add: sampleColumn_nonNull reaches_def)
  have a: "detectColumnType host sampleColumn = TNumber"
    using column_type_by_share [OF refl refl, of host sampleColumn] ne r by blast
  have e: "filter (\<lambda>v. \<not> isBlank v) [JNull, JStr []] = []"
    by (simp add: isBlank_def)
  have b: "detectColumnType host [JNull, JStr []] = TString"
    using column_type_by_share [OF refl refl, of host "[JNull, JStr []]"] e by blast
  have f: "filter (\<lambda>v. \<not> isBlank v) [JBool True, JNum (Fin 1)] = [JBool True, JNum (Fin 1)]"
    by (simp add: isBlank_def)
  have g: "categoryOf host (JBool True) = CBoolean" "categoryOf host (JNum (Fin 1)) = CNumber"
    by (auto simp: categoryOf_def)
  have m: "\<not> reaches (numberCount (tallyValues host [JBool True, JNum (Fin 1)]))
               (length [JBool True, JNum (Fin 1)])"
    "\<not> reaches (dateCount (tallyValues host [JBool True, JNum (Fin 1)]))
         (length [JBool True, JNum (Fin 1)])"
    "\<not> reaches (booleanCount (tallyValues host [JBool True, JNum (Fin 1)]))
         (length [JBool True, JNum (Fin 1)])"
    "\<not> reaches (stringCount (tallyValues host [JBool True, JNum (Fin 1)]))
         (length [JBool True, JNum (Fin 1)])"
    by (simp_all add: tallyValues_counts g reaches_def)
  note tm = column_type_by_share [OF refl refl, of host "[JBool True, JNum (Fin 1)]", unfolded f]
  have x: "detectColumnType host [JBool True, JNum (Fin 1)] = TMixed"
    using tm m by blast
  show "filter (\<lambda>v. \<not> isBlank v) sampleColumn \<noteq> []
     \<and> reaches (numberCount (tallyValues host (filter (\<lambda>v. \<not> isBlank v) sampleColumn)))
         (length (filter (\<lambda>v. \<not> isBlank v) sampleColumn))
     \<and> detectColumnType host sampleColumn = TNumber
     \<and> detectColumnType host [JNull, JStr []] = TString
     \<and> detectColumnType host [JBool True, JNum (Fin 1)] = TMixed"
    using ne r a b x by blast
qed

section \<open>Claims about sorting\<close>

lemma set_insertBy [simp]: "set (insertBy cmp x ys) = insert x (set ys)"
  by (induction ys) auto

lemma mset_insertBy [simp]: "mset (insertBy cmp x ys) = add_mset x (mset ys)"
  by (induction ys) auto

lemma mset_stableOrder [simp]: "mset (stableOrder cmp xs) = mset xs"
  by (induction xs) auto

lemma set_stableOrder [simp]: "set (stableOrder cmp xs) = set xs"
  by (metis mset_stableOrder set_mset_mset)

lemma length_stableOrder [simp]: "length (stableOrder cmp xs) = length xs"
  by (metis mset_stableOrder size_mset)

text \<open>Insertion keeps a list in an order that the comparator respects.\<close>

lemma sorted_wrt_insertBy:
  assumes "sorted_wrt R ys"
      and "\<And>y. y \<in> set ys \<Longrightarrow> num_gt (cmp x y) (Fin 0) \<Longrightarrow> R y x"
      and "\<And>y z. y \<in> set ys \<Longrightarrow> z \<in> set ys \<Longrightarrow> \<not> num_gt (cmp x y) (Fin 0)
              \<Longrightarrow> R y z \<or> y = z \<Longrightarrow> R x z"
  shows "sorted_wrt R (insertBy cmp x ys)"
  using assms
proof (induction ys)
  case Nil
  show ?case by simp
next
  case (Cons y ys)
  show ?case
  proof (cases "num_gt (cmp x y) (Fin 0)")
    case True
    have "sorted_wrt R (insertBy cmp x ys)"
      using Cons.prems by (intro Cons.IH) auto
    moreover have "R y x" using True Cons.prems(2) by simp
    moreover have "\<forall>z \<in> set ys. R y z" using Cons.prems(1) by simp
    ultimately show ?thesis using True by simp
  next
    case False
    have "\<forall>z \<in> set (y # ys). R x z"
    proof
      fix z assume z: "z \<in> set (y # ys)"
      have "R y z \<or> y = z" using z Cons.prems(1) by auto
      then show "R x z" using Cons.prems(3) [of y z] False z by simp
    qed
    then show ?thesis using False Cons.prems(1) by simp
  qed
qed

text \<open>
  For a consistent comparator the stable order is ascending: no element is put after one
  that the comparator places behind it.
\<close>

lemma sign_cases:
  "\<not> isNaN v \<Longrightarrow> num_lt v (Fin 0) \<or> num_eq v (Fin 0) \<or> num_gt v (Fin 0)"
  "num_lt v (Fin 0) \<Longrightarrow> \<not> num_eq v (Fin 0)"
  "num_lt v (Fin 0) \<Longrightarrow> \<not> num_gt v (Fin 0)"
  "num_gt v (Fin 0) \<Longrightarrow> \<not> num_eq v (Fin 0)"
  by (cases v; auto simp: num_gt_def)+

lemma isConsistent_tl: "isConsistent cmp (x # xs) \<Longrightarrow> isConsistent cmp xs"
  unfolding isConsistent_def by simp

lemma isConsistentD:
  assumes "isConsistent cmp xs" and "a \<in> set xs" and "b \<in> set xs" and "c \<in> set xs"
  shows "\<not> isNaN (cmp a b)"
    and "num_eq (cmp a a) (Fin 0)"
    and "num_eq (cmp a b) (Fin 0) \<Longrightarrow> num_eq (cmp b a) (Fin 0)"
    and "num_eq (cmp a b) (Fin 0) \<Longrightarrow> num_eq (cmp b c) (Fin 0) \<Longrightarrow> num_eq (cmp a c) (Fin 0)"
    and "num_lt (cmp a b) (Fin 0) \<Longrightarrow> num_lt (cmp b c) (Fin 0) \<Longrightarrow> num_lt (cmp a c) (Fin 0)"
    and "num_gt (cmp a b) (Fin 0) \<Longrightarrow> num_gt (cmp b c) (Fin 0) \<Longrightarrow> num_gt (cmp a c) (Fin 0)"
proof -
  have "consistentAt cmp a b c"
    using assms unfolding isConsistent_def by blast
  then show "\<not> isNaN (cmp a b)"
    and "num_eq (cmp a a) (Fin 0)"
    and "num_eq (cmp a b) (Fin 0) \<Longrightarrow> num_eq (cmp b a) (Fin 0)"
    and "num_eq (cmp a b) (Fin 0) \<Longrightarrow> num_eq (cmp b c) (Fin 0) \<Longrightarrow> num_eq (cmp a c) (Fin 0)"
    and "num_lt (cmp a b) (Fin 0) \<Longrightarrow> num_lt (cmp b c) (Fin 0) \<Longrightarrow> num_lt (cmp a c) (Fin 0)"
    and "num_gt (cmp a b) (Fin 0) \<Longrightarrow> num_gt (cmp b c) (Fin 0) \<Longrightarrow> num_gt (cmp a c) (Fin 0)"
    by (simp_all add: consistentAt_def)
qed

lemma consistent_gt_lt:
  assumes c: "isConsistent cmp xs" and a: "a \<in> set xs" and b: "b \<in> set xs"
    and g: "num_gt (cmp a b) (Fin 0)"
  shows "num_lt (cmp b a) (Fin 0)"
proof -
  have "\<not> num_eq (cmp b a) (Fin 0)"
    using isConsistentD(3) [OF c b a a] g sign_cases(4) by blast
  moreover have "\<not> num_gt (cmp b a) (Fin 0)"
    using isConsistentD(6) [OF c a b a] isConsistentD(2) [OF c a a a] g sign_cases(4) by blast
  ultimately show ?thesis
    using sign_cases(1) [OF isConsistentD(1) [OF c b a a]] by blast
qed

lemma consistent_lt_gt:
  assumes c: "isConsistent cmp xs" and a: "a \<in> set xs" and b: "b \<in> set xs"
    and l: "num_lt (cmp a b) (Fin 0)"
  shows "num_gt (cmp b a) (Fin 0)"
proof -
  have "\<not> num_eq (cmp b a) (Fin 0)"
    using isConsistentD(3) [OF c b a a] l sign_cases(2) by blast
  moreover have "\<not> num_lt (cmp b a) (Fin 0)"
    using isConsistentD(5) [OF c a b a] isConsistentD(2) [OF c a a a] l sign_cases(2) by blast
  ultimately show ?thesis
    using sign_cases(1) [OF isConsistentD(1) [OF c b a a]] by blast
qed

lemma consistent_le_trans:
  assumes c: "isConsistent cmp xs" and x: "x \<in> set xs" and y: "y \<in> set xs" and z: "z \<in> set xs"
    and xy: "\<not> num_gt (cmp x y) (Fin 0)" and yz: "\<not> num_gt (cmp y z) (Fin 0)"
  shows "\<not> num_gt (cmp x z) (Fin 0)"
proof
  assume g: "num_gt (cmp x z) (Fin 0)"
  have zx: "num_lt (cmp z x) (Fin 0)"
    by (rule consistent_gt_lt [OF c x z g])
  have nlt: "\<not> num_lt (cmp x z) (Fin 0)" and neq: "\<not> num_eq (cmp x z) (Fin 0)"
    using g sign_cases(3,4) by blast+
  have cxy: "num_lt (cmp x y) (Fin 0) \<or> num_eq (cmp x y) (Fin 0)"
    using sign_cases(1) [OF isConsistentD(1) [OF c x y y]] xy by blast
  have cyz: "num_lt (cmp y z) (Fin 0) \<or> num_eq (cmp y z) (Fin 0)"
    using sign_cases(1) [OF isConsistentD(1) [OF c y z z]] yz by blast
  from cxy show False
  proof
    assume lxy: "num_lt (cmp x y) (Fin 0)"
    from cyz show False
    proof
      assume "num_lt (cmp y z) (Fin 0)"
      then show False using isConsistentD(5) [OF c x y z] lxy nlt by blast
    next
      assume e: "num_eq (cmp y z) (Fin 0)"
      have "num_lt (cmp z y) (Fin 0)"
        using isConsistentD(5) [OF c z x y] zx lxy by blast
      moreover have "num_eq (cmp z y) (Fin 0)"
        using isConsistentD(3) [OF c y z z] e by blast
      ultimately show False using sign_cases(2) by blast
    qed
  next
    assume exy: "num_eq (cmp x y) (Fin 0)"
    from cyz show False
    proof
      assume l: "num_lt (cmp y z) (Fin 0)"
      have "num_lt (cmp y x) (Fin 0)"
        using isConsistentD(5) [OF c y z x] l zx by blast
      moreover have "num_eq (cmp y x) (Fin 0)"
        using isConsistentD(3) [OF c x y y] exy by blast
      ultimately show False using sign_cases(2) by blast
    next
      assume "num_eq (cmp y z) (Fin 0)"
      then show False using isConsistentD(4) [OF c x y z] exy neq by blast
    qed
  qed
qed

lemma stableOrder_sorted:
  assumes "isConsistent cmp xs"
  shows "sorted_wrt (\<lambda>a b. \<not> num_gt (cmp a b) (Fin 0)) (stableOrder cmp xs)"
  using assms
proof (induction xs)
  case Nil
  show ?case by simp
next
  case (Cons x xs)
  note c = Cons.prems
  have IH: "sorted_wrt (\<lambda>a b. \<not> num_gt (cmp a b) (Fin 0)) (stableOrder cmp xs)"
    using Cons.IH isConsistent_tl [OF c] by blast
  show ?case
    unfolding stableOrder.simps
  proof (rule sorted_wrt_insertBy [OF IH])
    fix y
    assume y: "y \<in> set (stableOrder cmp xs)" and g: "num_gt (cmp x y) (Fin 0)"
    have xm: "x \<in> set (x # xs)" and ym: "y \<in> set (x # xs)"
      using y by simp_all
    have "num_lt (cmp y x) (Fin 0)"
      by (rule consistent_gt_lt [OF c xm ym g])
    then show "\<not> num_gt (cmp y x) (Fin 0)"
      using sign_cases(3) by blast
  next
    fix y z
    assume y: "y \<in> set (stableOrder cmp xs)" and z: "z \<in> set (stableOrder cmp xs)"
      and xy: "\<not> num_gt (cmp x y) (Fin 0)"
      and yz: "\<not> num_gt (cmp y z) (Fin 0) \<or> y = z"
    have xm: "x \<in> set (x # xs)" and ym: "y \<in> set (x # xs)" and zm: "z \<in> set (x # xs)"
      using y z by simp_all
    from yz show "\<not> num_gt (cmp x z) (Fin 0)"
    proof
      assume "\<not> num_gt (cmp y z) (Fin 0)"
      then show ?thesis
        by (rule consistent_le_trans [OF c xm ym zm xy])
    next
      assume "y = z"
      then show ?thesis using xy by simp
    qed
  qed
qed

lemma compareData_null_left:
  assumes "isNullish (get a sortBy)"
  shows "compareData host sortBy dir a b = Fin 1"
  using assms by (auto simp: compareData_def isNullish_def Let_def)

lemma compareData_null_right:
  assumes "\<not> isNullish (get a sortBy)" and "isNullish (get b sortBy)"
  shows "compareData host sortBy dir a b = Fin (- 1)"
  using assms by (auto simp: compareData_def isNullish_def Let_def)


text \<open>
  A record whose sort field is null or undefined compares as 1 with every record, itself
  included, so the comparator of \<open>sortData\<close> is not a consistent comparison function for
  a list that holds such a record, and the order of the result is left to the engine.
\<close>

lemma compareData_not_consistent:
  assumes "r \<in> set rows" and "isNullish (get r sortBy)"
  shows "\<not> isConsistent (compareData host sortBy dir) rows"
proof
  assume "isConsistent (compareData host sortBy dir) rows"
  then have "consistentAt (compareData host sortBy dir) r r r"
    using assms(1) unfolding isConsistent_def by blast
  then have "num_eq (compareData host sortBy dir r r) (Fin 0)"
    by (simp add: consistentAt_def)
  then show False
    using compareData_null_left [OF assms(2)] by simp
qed

lemma sortData_nullish_undetermined:
  assumes "r \<in> set rows" and "isNullish (get r sortBy)"
  shows "sortData host rows sortBy dir = None"
  using compareData_not_consistent [OF assms] by (simp add: sortData_def arraySort_def)











end
